theory Spec2Isabelle
  imports Complex_Main "HOL-Library.Multiset"
begin

section \<open>The model benchmarking page: data model\<close>

text \<open>
  The embedded source is the Angular component
  \<^verbatim>\<open>model-benchmarking.component.ts\<close>. Its fields become one record, its methods
  functions from the record to the updated record, and the two callbacks it registers
  (the subscription to the asset service and the timer of \<^verbatim>\<open>runRanking\<close>) functions
  of their own, fired by events.

  Values of type \<^verbatim>\<open>number\<close> that hold scores are modelled as exact decimals
  (\<^typ>\<open>real\<close>): every score the component compares is one of eight two-digit literals, and
  the doubles nearest to them are ordered as the decimals are, so the sort orders the rows
  as it does in the browser. The one sum the component computes, the score plus 0.06 of a
  fallback row, is the exact sum here; the double may differ from it in its last place.
  Array indices and ranks are natural numbers.
\<close>

text \<open>
  Modelled from the spec: the declaration of \<^verbatim>\<open>MLAsset\<close>
  (\<^verbatim>\<open>shared/models/ml-asset\<close>) is not part of the sources; the specification gives an
  asset an id, a name, three lists of tags and further descriptive attributes. The record
  has the fields that \<^verbatim>\<open>buildDemoAssets\<close> writes, with strings for the elements of the
  containers it leaves empty; the component reads \<^verbatim>\<open>id\<close> and \<^verbatim>\<open>name\<close> only (and the
  three tag lists for display). The field \<^verbatim>\<open>id\<close> is named \<open>id_asset\<close>, since \<open>id\<close> is
  the identity function of HOL, and \<^verbatim>\<open>keywords\<close> is named \<open>keywords_asset\<close>.
\<close>

record MLAsset =
  id_asset :: string
  name :: string
  version :: string
  description :: string
  shortDescription :: string
  assetType :: string
  contentType :: string
  byteSize :: string
  format :: string
  keywords_asset :: "string list"
  tasks :: "string list"
  subtasks :: "string list"
  algorithms :: "string list"
  libraries :: "string list"
  frameworks :: "string list"
  modelType :: string
  storageType :: string
  fileName :: string
  owner :: string
  isLocal :: bool
  hasContractOffers :: bool
  contractOffers :: "string list"
  endpointUrl :: string
  participantId :: string
  assetData :: "(string \<times> string) list"
  rawProperties :: "(string \<times> string) list"
  originator :: string

datatype InputMode = Single | Dataset

text \<open>
  The interface \<^verbatim>\<open>RankingRow\<close>. The optional field \<^verbatim>\<open>top?: boolean\<close> is an option
  (named \<open>top_opt\<close>, since \<open>top\<close> is the greatest element of a lattice in HOL): a row
  literal that does not write it leaves it undefined.
\<close>

record RankingRow =
  rank :: nat
  model :: string
  score :: real
  accuracy :: real
  latency :: string
  cost :: string
  top_opt :: "bool option"

text \<open>
  \<^verbatim>\<open>scoreMap\<close> is an object literal, and \<^verbatim>\<open>scoreMap[asset.id]\<close> is a property read.
  A property read on an object finds the properties the literal declares and, failing
  that, the members every object inherits from \<^verbatim>\<open>Object.prototype\<close>, which are
  functions or objects and never a \<^verbatim>\<open>RankingRow\<close>. So the values that flow where the
  source's types say \<^verbatim>\<open>RankingRow\<close> are of three shapes:
  \<^item> \<open>Row r\<close>, an object with the fields of the interface;
  \<^item> \<open>Inherited k\<close>, the member of \<^verbatim>\<open>Object.prototype\<close> named \<open>k\<close>, which has no
    field of the interface (reading \<^verbatim>\<open>score\<close> from it gives \<^verbatim>\<open>undefined\<close>);
  \<^item> \<open>RankTop n b\<close>, the object \<^verbatim>\<open>{rank: n, top: b}\<close> that the spread
    \<^verbatim>\<open>{...row, rank: n, top: b}\<close> builds from such a member, which has no enumerable
    property of its own.
\<close>

datatype rowValue = Row RankingRow | Inherited string | RankTop nat bool

record component =
  inputMode :: InputMode
  sampleInput :: string
  selectedFileName :: string
  isRunning :: bool
  statusMessage :: string
  modelPoolAssets :: "MLAsset list"
  selectedAssetIds :: "string list"
  isLoadingAssets :: bool
  assetsError :: string
  rankingRows :: "rowValue list"
  pendingTimeouts :: nat

text \<open>
  The last field is not a field of the class: it counts the callbacks that
  \<^verbatim>\<open>window.setTimeout\<close> holds for \<^verbatim>\<open>runRanking\<close> and that have not fired yet.
\<close>

section \<open>The demo catalog\<close>

text \<open>
  \<^verbatim>\<open>baseAsset\<close> lacks \<^verbatim>\<open>id\<close> and \<^verbatim>\<open>name\<close>; each element of the returned array
  spreads it and adds both, so the model takes them as arguments.
\<close>

definition baseAsset :: "string \<Rightarrow> string \<Rightarrow> MLAsset" where
  "baseAsset i n =
     \<lparr> id_asset = i, name = n,
       version = ''1.0.0'',
       description = ''Demo benchmark asset'',
       shortDescription = ''Demo benchmark asset'',
       assetType = ''MLModel'',
       contentType = ''application/json'',
       byteSize = ''0'',
       format = ''HTTP'',
       keywords_asset = [''demo''],
       tasks = [''classification''],
       subtasks = [''tabular''],
       algorithms = [''XGBoost''],
       libraries = [''scikit-learn''],
       frameworks = [''ONNX''],
       modelType = ''tabular'',
       storageType = ''HttpData'',
       fileName = ''demo'',
       owner = ''demo'',
       isLocal = True,
       hasContractOffers = False,
       contractOffers = [],
       endpointUrl = ''http://localhost:8080'',
       participantId = ''demo'',
       assetData = [],
       rawProperties = [],
       originator = ''Local Connector'' \<rparr>"

definition buildDemoAssets :: "MLAsset list" where
  "buildDemoAssets =
     [ (baseAsset ''demo-iris'' ''Iris-V2'') \<lparr> algorithms := [''Logistic Regression''] \<rparr>,
       (baseAsset ''demo-sentinel'' ''Sentinel-Edge'') \<lparr> frameworks := [''TensorFlow''] \<rparr>,
       (baseAsset ''demo-atlas'' ''Atlas-Lite'') \<lparr> libraries := [''PyTorch''] \<rparr>,
       (baseAsset ''demo-forge'' ''Forge-XL'') \<lparr> algorithms := [''Random Forest''] \<rparr> ]"

section \<open>Loading the catalog and selecting assets\<close>

text \<open>The field initialisers of the class.\<close>

definition initial :: component where
  \<open>initial =
     \<lparr> inputMode = Single,
       sampleInput = ''{"sepal_length": 5.1, "sepal_width": 3.5, "petal_length": 1.4, "petal_width": 0.2}'',
       selectedFileName = '''',
       isRunning = False,
       statusMessage = ''Demo mode: actions are simulated for preview only.'',
       modelPoolAssets = [],
       selectedAssetIds = [],
       isLoadingAssets = False,
       assetsError = '''',
       rankingRows =
         [ Row \<lparr> rank = 1, model = ''Iris-V2'', score = 0.87, accuracy = 0.93,
                 latency = ''280ms'', cost = ''$0.011'', top_opt = Some True \<rparr>,
           Row \<lparr> rank = 2, model = ''Sentinel-Edge'', score = 0.84, accuracy = 0.91,
                 latency = ''260ms'', cost = ''$0.015'', top_opt = None \<rparr>,
           Row \<lparr> rank = 3, model = ''Atlas-Lite'', score = 0.78, accuracy = 0.88,
                 latency = ''410ms'', cost = ''$0.013'', top_opt = None \<rparr>,
           Row \<lparr> rank = 4, model = ''Forge-XL'', score = 0.72, accuracy = 0.84,
                 latency = ''390ms'', cost = ''$0.009'', top_opt = None \<rparr> ],
       pendingTimeouts = 0 \<rparr>\<close>

text \<open>
  \<^verbatim>\<open>loadModelPool\<close> sets two fields and subscribes; the subscription's \<^verbatim>\<open>next\<close> and
  \<^verbatim>\<open>error\<close> callbacks run later, when the asset service answers.
\<close>

definition loadModelPool :: "component \<Rightarrow> component" where
  "loadModelPool s = s \<lparr> isLoadingAssets := True, assetsError := '''' \<rparr>"

definition loadModelPool_next :: "component \<Rightarrow> MLAsset list \<Rightarrow> component" where
  "loadModelPool_next s assets =
     s \<lparr> modelPoolAssets := assets,
         selectedAssetIds := map id_asset (take 3 assets),
         isLoadingAssets := False \<rparr>"

definition loadModelPool_error :: "component \<Rightarrow> component" where
  "loadModelPool_error s =
     s \<lparr> modelPoolAssets := buildDemoAssets,
         selectedAssetIds := map id_asset (take 3 buildDemoAssets),
         isLoadingAssets := False,
         assetsError := ''Unable to load live assets. Showing demo catalog.'' \<rparr>"

definition ngOnInit :: "component \<Rightarrow> component" where
  "ngOnInit s = loadModelPool s"

definition selectedCount :: "component \<Rightarrow> nat" where
  "selectedCount s = length (selectedAssetIds s)"

definition setInputMode :: "component \<Rightarrow> InputMode \<Rightarrow> component" where
  "setInputMode s mode = s \<lparr> inputMode := mode \<rparr>"

definition isAssetSelected :: "component \<Rightarrow> MLAsset \<Rightarrow> bool" where
  "isAssetSelected s asset \<longleftrightarrow> id_asset asset \<in> set (selectedAssetIds s)"

definition toggleAssetSelection :: "component \<Rightarrow> MLAsset \<Rightarrow> component" where
  "toggleAssetSelection s asset =
     (if isAssetSelected s asset
      then s \<lparr> selectedAssetIds := filter (\<lambda>i. i \<noteq> id_asset asset) (selectedAssetIds s) \<rparr>
      else s \<lparr> selectedAssetIds := selectedAssetIds s @ [id_asset asset] \<rparr>)"

text \<open>The argument is the name of \<^verbatim>\<open>input.files?.[0]\<close>, when there is such a file.\<close>

definition handleFileSelection :: "component \<Rightarrow> string option \<Rightarrow> component" where
  "handleFileSelection s file =
     s \<lparr> selectedFileName := (case file of Some n \<Rightarrow> n | None \<Rightarrow> '''') \<rparr>"

definition validateSchema :: "component \<Rightarrow> component" where
  "validateSchema s =
     s \<lparr> statusMessage := ''Schema validated in demo mode. Ready to run ranking.'' \<rparr>"

section \<open>The ranking\<close>

text \<open>The decimal rendering of a natural number, as a template literal prints it.\<close>

fun showNat :: "nat \<Rightarrow> string" where
  "showNat n =
     (if n < 10 then [''0123456789'' ! n]
      else showNat (n div 10) @ [''0123456789'' ! (n mod 10)])"

declare showNat.simps [simp del]

definition scoreMap :: "MLAsset \<Rightarrow> (string \<times> RankingRow) list" where
  "scoreMap asset =
     [ (''asset-user1-sentiment-api'',
          \<lparr> rank = 0, model = name asset, score = 0.86, accuracy = 0.92,
            latency = ''300ms'', cost = ''$0.012'', top_opt = None \<rparr>),
       (''asset-user1-fraud-api'',
          \<lparr> rank = 0, model = name asset, score = 0.88, accuracy = 0.94,
            latency = ''260ms'', cost = ''$0.014'', top_opt = None \<rparr>),
       (''asset-user1-segmentation-model'',
          \<lparr> rank = 0, model = name asset, score = 0.82, accuracy = 0.9,
            latency = ''420ms'', cost = ''$0.016'', top_opt = None \<rparr>),
       (''asset-user1-credit-model'',
          \<lparr> rank = 0, model = name asset, score = 0.84, accuracy = 0.91,
            latency = ''310ms'', cost = ''$0.011'', top_opt = None \<rparr>) ]"

text \<open>
  The string-keyed members of \<^verbatim>\<open>Object.prototype\<close> (ECMAScript, with the accessors of
  its annex B that every browser has). Each is a function, or for \<^verbatim>\<open>__proto__\<close> the
  prototype object itself: all are truthy.
\<close>

definition objectPrototypeMembers :: "string list" where
  "objectPrototypeMembers =
     [ ''constructor'', ''hasOwnProperty'', ''isPrototypeOf'', ''propertyIsEnumerable'',
       ''toLocaleString'', ''toString'', ''valueOf'', ''__proto__'',
       ''__defineGetter__'', ''__defineSetter__'', ''__lookupGetter__'',
       ''__lookupSetter__'' ]"

text \<open>
  The property read \<^verbatim>\<open>obj[key]\<close> on an object literal with the given own properties:
  \<open>None\<close> is \<^verbatim>\<open>undefined\<close>.
\<close>

definition getProperty :: "(string \<times> RankingRow) list \<Rightarrow> string \<Rightarrow> rowValue option" where
  "getProperty obj key =
     (case map_of obj key of
        Some r \<Rightarrow> Some (Row r)
      | None \<Rightarrow> if key \<in> set objectPrototypeMembers then Some (Inherited key) else None)"

definition fallbackScores :: "real list" where
  "fallbackScores = [0.87, 0.85, 0.82, 0.79, 0.76]"

text \<open>
  Every value a property read of \<^verbatim>\<open>scoreMap\<close> finds is an object or a function, so
  \<^verbatim>\<open>||\<close> takes its right operand exactly when the read gives \<^verbatim>\<open>undefined\<close>.
\<close>

definition buildRankingRow :: "MLAsset \<Rightarrow> nat \<Rightarrow> rowValue" where
  "buildRankingRow asset index =
     (let fallbackScore = fallbackScores ! (index mod length fallbackScores) in
      case getProperty (scoreMap asset) (id_asset asset) of
        Some v \<Rightarrow> v
      | None \<Rightarrow>
          Row \<lparr> rank = 0, model = name asset, score = fallbackScore,
                accuracy = min 0.95 (fallbackScore + 0.06),
                latency = showNat (280 + index * 40) @ ''ms'',
                cost = ''$0.0'' @ showNat (12 + index),
                top_opt = None \<rparr>)"

text \<open>The property read \<^verbatim>\<open>row.score\<close>; \<open>None\<close> is \<^verbatim>\<open>undefined\<close>.\<close>

fun scoreOf :: "rowValue \<Rightarrow> real option" where
  "scoreOf (Row r) = Some (score r)"
| "scoreOf (Inherited k) = None"
| "scoreOf (RankTop n b) = None"

text \<open>
  The comparator \<^verbatim>\<open>(a, b) => b.score - a.score\<close>; \<open>None\<close> is \<^verbatim>\<open>NaN\<close>, the difference
  when an operand is \<^verbatim>\<open>undefined\<close>.
\<close>

definition comparefn :: "rowValue \<Rightarrow> rowValue \<Rightarrow> real option" where
  "comparefn a b =
     (case (scoreOf b, scoreOf a) of
        (Some x, Some y) \<Rightarrow> Some (x - y)
      | _ \<Rightarrow> None)"

text \<open>
  \<^verbatim>\<open>Array.prototype.sort\<close> reads a comparator's \<^verbatim>\<open>NaN\<close> as \<open>0\<close>, and is stable: it
  is modelled as the insertion sort that puts an element before the first element of
  the sorted rest that the comparator does not put before it. (When a member of
  \<^verbatim>\<open>Object.prototype\<close> stands among rows of different scores the comparator is not
  consistent and ECMAScript leaves the order to the engine; the model's order is then
  one outcome among those allowed; the length of the result is the same in all.)
\<close>

definition sortCompare :: "rowValue \<Rightarrow> rowValue \<Rightarrow> real" where
  "sortCompare a b = (case comparefn a b of Some v \<Rightarrow> v | None \<Rightarrow> 0)"

fun insertRow :: "rowValue \<Rightarrow> rowValue list \<Rightarrow> rowValue list" where
  "insertRow x [] = [x]"
| "insertRow x (y # ys) =
     (if sortCompare x y \<le> 0 then x # y # ys else y # insertRow x ys)"

definition sortRows :: "rowValue list \<Rightarrow> rowValue list" where
  "sortRows xs = foldr insertRow xs []"

text \<open>\<^verbatim>\<open>xs.map((x, index) => f(x, index))\<close>.\<close>

definition mapIndexed :: "('a \<Rightarrow> nat \<Rightarrow> 'b) \<Rightarrow> 'a list \<Rightarrow> 'b list" where
  "mapIndexed f xs = map (\<lambda>(index, x). f x index) (enumerate 0 xs)"

text \<open>The object \<^verbatim>\<open>{ ...row, rank: index + 1, top: index === 0 }\<close>.\<close>

fun withRank :: "rowValue \<Rightarrow> nat \<Rightarrow> rowValue" where
  "withRank (Row r) index = Row (r \<lparr> rank := index + 1, top_opt := Some (index = 0) \<rparr>)"
| "withRank (Inherited k) index = RankTop (index + 1) (index = 0)"
| "withRank (RankTop n b) index = RankTop (index + 1) (index = 0)"

definition selectedAssets :: "component \<Rightarrow> MLAsset list" where
  "selectedAssets s =
     filter (\<lambda>asset. id_asset asset \<in> set (selectedAssetIds s)) (modelPoolAssets s)"

definition rawRows :: "component \<Rightarrow> rowValue list" where
  "rawRows s = mapIndexed buildRankingRow (selectedAssets s)"

definition ranked :: "component \<Rightarrow> rowValue list" where
  "ranked s = mapIndexed withRank (sortRows (rawRows s))"

text \<open>
  \<^verbatim>\<open>runRanking\<close> up to the call of \<^verbatim>\<open>window.setTimeout\<close>, which adds one pending
  callback; and the callback, which runs when the timer fires.
\<close>

definition runRanking :: "component \<Rightarrow> component" where
  "runRanking s =
     (if isRunning s then s
      else if length (selectedAssetIds s) < 2
      then s \<lparr> statusMessage := ''Select at least two models to generate a ranking.'' \<rparr>
      else s \<lparr> isRunning := True,
               statusMessage := ''Running benchmark in demo mode...'',
               pendingTimeouts := pendingTimeouts s + 1 \<rparr>)"

definition runRanking_timeout :: "component \<Rightarrow> component" where
  "runRanking_timeout s =
     s \<lparr> rankingRows := ranked s,
         isRunning := False,
         statusMessage :=
           ''Demo ranking generated. Replace with live benchmarking when backend is ready.'' \<rparr>"

section \<open>The page session\<close>

text \<open>
  What can happen to the component: a call of one of its methods, an answer of the
  asset service, or the timer firing. The timer fires only when a callback is pending.
  An answer of the asset service is allowed at any moment, also when no subscription
  waits for one: this adds states and takes none away.
\<close>

datatype event =
    NgOnInit
  | LoadModelPool
  | ProviderNext "MLAsset list"
  | ProviderError
  | SetInputMode InputMode
  | ToggleAssetSelection MLAsset
  | HandleFileSelection "string option"
  | ValidateSchema
  | RunRanking
  | Timeout

fun step :: "component \<Rightarrow> event \<Rightarrow> component" where
  "step s NgOnInit = ngOnInit s"
| "step s LoadModelPool = loadModelPool s"
| "step s (ProviderNext assets) = loadModelPool_next s assets"
| "step s ProviderError = loadModelPool_error s"
| "step s (SetInputMode mode) = setInputMode s mode"
| "step s (ToggleAssetSelection asset) = toggleAssetSelection s asset"
| "step s (HandleFileSelection file) = handleFileSelection s file"
| "step s ValidateSchema = validateSchema s"
| "step s RunRanking = runRanking s"
| "step s Timeout =
     (if pendingTimeouts s = 0 then s
      else runRanking_timeout (s \<lparr> pendingTimeouts := pendingTimeouts s - 1 \<rparr>))"

fun exec :: "component \<Rightarrow> event list \<Rightarrow> component" where
  "exec s [] = s"
| "exec s (e # es) = exec (step s e) es"

section \<open>Reading the leaderboard and the selection\<close>

text \<open>
  The property reads \<^verbatim>\<open>row.rank\<close>, \<^verbatim>\<open>row.top\<close> and \<^verbatim>\<open>row.model\<close> on the three
  shapes of value; \<open>None\<close> is \<^verbatim>\<open>undefined\<close>.
\<close>

fun rankOf :: "rowValue \<Rightarrow> nat option" where
  "rankOf (Row r) = Some (rank r)"
| "rankOf (Inherited k) = None"
| "rankOf (RankTop n b) = Some n"

fun topOf :: "rowValue \<Rightarrow> bool option" where
  "topOf (Row r) = top_opt r"
| "topOf (Inherited k) = None"
| "topOf (RankTop n b) = Some b"

fun modelOf :: "rowValue \<Rightarrow> string option" where
  "modelOf (Row r) = Some (model r)"
| "modelOf (Inherited k) = None"
| "modelOf (RankTop n b) = None"

text \<open>The values of a list that are rows of the interface, in order.\<close>

fun properRows :: "rowValue list \<Rightarrow> RankingRow list" where
  "properRows [] = []"
| "properRows (Row r # vs) = r # properRows vs"
| "properRows (Inherited k # vs) = properRows vs"
| "properRows (RankTop n b # vs) = properRows vs"

text \<open>A row as \<^verbatim>\<open>buildRankingRow\<close> leaves it: rank 0 and no \<^verbatim>\<open>top\<close>.\<close>

definition unranked :: "RankingRow \<Rightarrow> RankingRow" where
  "unranked r = r \<lparr> rank := 0, top_opt := None \<rparr>"

text \<open>
  The invariant the specification gives for the selection: every selected id is the id
  of an asset of the loaded catalog.
\<close>

definition selectionInCatalog :: "component \<Rightarrow> bool" where
  "selectionInCatalog s \<longleftrightarrow>
     set (selectedAssetIds s) \<subseteq> set (map id_asset (modelPoolAssets s))"

text \<open>
  A sequence of events, run from a state, in which every toggle is of an asset whose id
  is in the catalog loaded at that moment (as when the view offers the loaded assets
  only).
\<close>

fun togglesInCatalog :: "component \<Rightarrow> event list \<Rightarrow> bool" where
  "togglesInCatalog s [] = True"
| "togglesInCatalog s (ToggleAssetSelection asset # es) =
     (id_asset asset \<in> set (map id_asset (modelPoolAssets s)) \<and>
      togglesInCatalog (toggleAssetSelection s asset) es)"
| "togglesInCatalog s (e # es) = togglesInCatalog (step s e) es"

section \<open>Properties of the selection and of the guards of a run\<close>

text \<open>
  C6. Toggling the same asset twice leaves the membership of the selection as it was:
  the set of selected ids after the two toggles is the set before them. One toggle
  removes the id when it is selected (every occurrence) and appends it at the end
  otherwise.
\<close>

theorem toggle_twice_membership:
  "set (selectedAssetIds (toggleAssetSelection (toggleAssetSelection s asset) asset))
     = set (selectedAssetIds s) \<and>
   selectedAssetIds (toggleAssetSelection s asset) =
     (if id_asset asset \<in> set (selectedAssetIds s)
      then filter (\<lambda>i. i \<noteq> id_asset asset) (selectedAssetIds s)
      else selectedAssetIds s @ [id_asset asset])"
  by (auto simp add: toggleAssetSelection_def isAssetSelected_def)

theorem toggle_twice_membership_witness:
  "set (selectedAssetIds
          (toggleAssetSelection
             (toggleAssetSelection (loadModelPool_error initial) (baseAsset ''demo-atlas'' ''Atlas-Lite''))
             (baseAsset ''demo-atlas'' ''Atlas-Lite'')))
     = {''demo-iris'', ''demo-sentinel'', ''demo-atlas''} \<and>
   selectedAssetIds
     (toggleAssetSelection (loadModelPool_error initial) (baseAsset ''demo-atlas'' ''Atlas-Lite''))
     = [''demo-iris'', ''demo-sentinel'']"
  using toggle_twice_membership
          [of "loadModelPool_error initial" "baseAsset ''demo-atlas'' ''Atlas-Lite''"]
  by (simp add: loadModelPool_error_def buildDemoAssets_def baseAsset_def insert_commute)

text \<open>
  C7. When the asset service reports failure, the catalog becomes the demo catalog,
  which does not depend on the state: four assets with the ids demo-iris,
  demo-sentinel, demo-atlas, demo-forge and the names Iris-V2, Sentinel-Edge,
  Atlas-Lite, Forge-XL, in this order. The selection becomes the first three ids, and
  the warning \<^verbatim>\<open>assetsError\<close> is set to a non-empty message.
\<close>

theorem provider_failure_loads_demo_catalog:
  "modelPoolAssets (loadModelPool_error s) = buildDemoAssets \<and>
   map id_asset (modelPoolAssets (loadModelPool_error s)) =
     [''demo-iris'', ''demo-sentinel'', ''demo-atlas'', ''demo-forge''] \<and>
   map name (modelPoolAssets (loadModelPool_error s)) =
     [''Iris-V2'', ''Sentinel-Edge'', ''Atlas-Lite'', ''Forge-XL''] \<and>
   selectedAssetIds (loadModelPool_error s) =
     [''demo-iris'', ''demo-sentinel'', ''demo-atlas''] \<and>
   assetsError (loadModelPool_error s) =
     ''Unable to load live assets. Showing demo catalog.'' \<and>
   isLoadingAssets (loadModelPool_error s) = False"
  by (simp add: loadModelPool_error_def buildDemoAssets_def baseAsset_def)

theorem provider_failure_loads_demo_catalog_witness:
  "map id_asset (modelPoolAssets (step (step initial NgOnInit) ProviderError)) =
     [''demo-iris'', ''demo-sentinel'', ''demo-atlas'', ''demo-forge''] \<and>
   selectedAssetIds (step (step initial NgOnInit) ProviderError) =
     [''demo-iris'', ''demo-sentinel'', ''demo-atlas''] \<and>
   assetsError (step (step initial NgOnInit) ProviderError) \<noteq> ''''"
  using provider_failure_loads_demo_catalog [of "step initial NgOnInit"]
  by (simp add: buildDemoAssets_def baseAsset_def)

text \<open>
  C8. When no run is in progress and fewer than two ids are selected,
  \<^verbatim>\<open>runRanking\<close> changes the status message and nothing else: the leaderboard is
  the one displayed before, the running flag stays false, no timer is started, and the
  message is "Select at least two models to generate a ranking."
\<close>

theorem run_with_too_few_selected:
  assumes "\<not> isRunning s" and "length (selectedAssetIds s) < 2"
  shows "runRanking s =
           s \<lparr> statusMessage := ''Select at least two models to generate a ranking.'' \<rparr> \<and>
         rankingRows (runRanking s) = rankingRows s \<and>
         \<not> isRunning (runRanking s) \<and>
         pendingTimeouts (runRanking s) = pendingTimeouts s \<and>
         statusMessage (runRanking s) = ''Select at least two models to generate a ranking.''"
  using assms by (simp add: runRanking_def)

theorem run_with_too_few_selected_witness:
  "\<not> isRunning (toggleAssetSelection initial (baseAsset ''demo-iris'' ''Iris-V2'')) \<and>
   length (selectedAssetIds (toggleAssetSelection initial (baseAsset ''demo-iris'' ''Iris-V2''))) = 1 \<and>
   rankingRows (runRanking (toggleAssetSelection initial (baseAsset ''demo-iris'' ''Iris-V2'')))
     = rankingRows initial \<and>
   statusMessage (runRanking (toggleAssetSelection initial (baseAsset ''demo-iris'' ''Iris-V2'')))
     = ''Select at least two models to generate a ranking.''"
  using run_with_too_few_selected
          [of "toggleAssetSelection initial (baseAsset ''demo-iris'' ''Iris-V2'')"]
  by (simp add: toggleAssetSelection_def isAssetSelected_def initial_def baseAsset_def)

section \<open>Properties of the page session\<close>

lemma timers_inv_step:
  "pendingTimeouts s = (if isRunning s then 1 else 0) \<Longrightarrow>
   pendingTimeouts (step s e) = (if isRunning (step s e) then 1 else 0)"
  by (cases e)
     (simp_all add: ngOnInit_def loadModelPool_def loadModelPool_next_def loadModelPool_error_def
        setInputMode_def toggleAssetSelection_def handleFileSelection_def validateSchema_def
        runRanking_def runRanking_timeout_def)

lemma timers_inv_exec:
  "pendingTimeouts s = (if isRunning s then 1 else 0) \<Longrightarrow>
   pendingTimeouts (exec s es) = (if isRunning (exec s es) then 1 else 0)"
proof (induction es arbitrary: s)
  case Nil
  then show ?case by simp
next
  case (Cons e es)
  from Cons.prems have "pendingTimeouts (step s e) = (if isRunning (step s e) then 1 else 0)"
    by (rule timers_inv_step)
  then show ?case using Cons.IH by simp
qed

text \<open>
  C9. While a run is in progress \<^verbatim>\<open>runRanking\<close> returns at once: the state after the
  call is the state before it, in every field, and the count of pending timers with it,
  so no second run is scheduled. In every state the page can reach from its initial
  state, by any sequence of events, one timer is pending when the running flag is set and
  none otherwise: at most one ranking is in flight.
\<close>

theorem run_while_running_is_noop:
  "(isRunning s \<longrightarrow> runRanking s = s) \<and>
   pendingTimeouts (exec initial es) = (if isRunning (exec initial es) then 1 else 0) \<and>
   pendingTimeouts (exec initial es) \<le> 1"
proof -
  have "pendingTimeouts initial = (if isRunning initial then 1 else 0)"
    by (simp add: initial_def)
  then have "pendingTimeouts (exec initial es) = (if isRunning (exec initial es) then 1 else 0)"
    by (rule timers_inv_exec)
  then show ?thesis by (simp add: runRanking_def)
qed

theorem run_while_running_is_noop_witness:
  "isRunning (runRanking (loadModelPool_error initial)) \<and>
   runRanking (runRanking (loadModelPool_error initial)) = runRanking (loadModelPool_error initial) \<and>
   pendingTimeouts (exec initial [NgOnInit, ProviderError, RunRanking, RunRanking]) = 1"
proof -
  have r: "isRunning (runRanking (loadModelPool_error initial))"
    by (simp add: runRanking_def loadModelPool_error_def initial_def buildDemoAssets_def)
  have e: "isRunning (exec initial [NgOnInit, ProviderError, RunRanking, RunRanking])"
    by (simp add: runRanking_def loadModelPool_error_def initial_def buildDemoAssets_def
          ngOnInit_def loadModelPool_def)
  from run_while_running_is_noop
         [of "runRanking (loadModelPool_error initial)"
             "[NgOnInit, ProviderError, RunRanking, RunRanking]"] r e
  show ?thesis by simp
qed

lemma toggle_keeps_selectionInCatalog:
  assumes "selectionInCatalog s"
    and "id_asset asset \<in> set (map id_asset (modelPoolAssets s))"
  shows "selectionInCatalog (toggleAssetSelection s asset)"
  using assms
  by (auto simp add: selectionInCatalog_def toggleAssetSelection_def isAssetSelected_def)

lemma load_gives_selectionInCatalog:
  "selectionInCatalog (loadModelPool_next s assets)"
  "selectionInCatalog (loadModelPool_error s)"
proof -
  have "set (take 3 xs) \<subseteq> set xs" for xs :: "MLAsset list"
    by (rule set_take_subset)
  then show "selectionInCatalog (loadModelPool_next s assets)"
    and "selectionInCatalog (loadModelPool_error s)"
    by (auto simp add: selectionInCatalog_def loadModelPool_next_def loadModelPool_error_def)
qed

lemma exec_keeps_selectionInCatalog:
  "selectionInCatalog s \<Longrightarrow> togglesInCatalog s es \<Longrightarrow> selectionInCatalog (exec s es)"
proof (induction es arbitrary: s)
  case Nil
  then show ?case by simp
next
  case (Cons e es)
  have same: "selectionInCatalog s'"
    if "selectedAssetIds s' = selectedAssetIds s" "modelPoolAssets s' = modelPoolAssets s" for s'
    using that Cons.prems(1) by (simp add: selectionInCatalog_def)
  show ?case
  proof (cases e)
    case (ToggleAssetSelection asset)
    with Cons.prems have "selectionInCatalog (toggleAssetSelection s asset)"
      and "togglesInCatalog (toggleAssetSelection s asset) es"
      by (simp_all add: toggle_keeps_selectionInCatalog)
    then show ?thesis using Cons.IH ToggleAssetSelection by simp
  next
    case (ProviderNext assets)
    then show ?thesis
      using Cons.prems(2) Cons.IH [of "loadModelPool_next s assets"]
      by (simp add: load_gives_selectionInCatalog)
  next
    case ProviderError
    then show ?thesis
      using Cons.prems(2) Cons.IH [of "loadModelPool_error s"]
      by (simp add: load_gives_selectionInCatalog)
  next
    case NgOnInit
    then show ?thesis
      using Cons.prems(2) Cons.IH [of "ngOnInit s"] same [of "ngOnInit s"]
      by (simp add: ngOnInit_def loadModelPool_def)
  next
    case LoadModelPool
    then show ?thesis
      using Cons.prems(2) Cons.IH [of "loadModelPool s"] same [of "loadModelPool s"]
      by (simp add: loadModelPool_def)
  next
    case (SetInputMode mode)
    then show ?thesis
      using Cons.prems(2) Cons.IH [of "setInputMode s mode"] same [of "setInputMode s mode"]
      by (simp add: setInputMode_def)
  next
    case (HandleFileSelection chosen)
    then show ?thesis
      using Cons.prems(2) Cons.IH [of "handleFileSelection s chosen"]
        same [of "handleFileSelection s chosen"]
      by (simp add: handleFileSelection_def)
  next
    case ValidateSchema
    then show ?thesis
      using Cons.prems(2) Cons.IH [of "validateSchema s"] same [of "validateSchema s"]
      by (simp add: validateSchema_def)
  next
    case RunRanking
    then show ?thesis
      using Cons.prems(2) Cons.IH [of "runRanking s"] same [of "runRanking s"]
      by (simp add: runRanking_def)
  next
    case Timeout
    then show ?thesis
      using Cons.prems(2) Cons.IH [of "step s Timeout"] same [of "step s Timeout"]
      by (simp add: runRanking_timeout_def)
  qed
qed

text \<open>
  The selection can leave the catalog: \<^verbatim>\<open>toggleAssetSelection\<close> takes any asset and
  does not look at \<^verbatim>\<open>modelPoolAssets\<close>. After the demo catalog is loaded the selected
  ids are ids of the catalog; toggling an asset with the id "ghost", which the catalog
  does not hold, selects it all the same.
\<close>

theorem toggle_outside_catalog_counterexample:
  "selectionInCatalog (exec initial [NgOnInit, ProviderError]) \<and>
   \<not> selectionInCatalog
       (exec initial [NgOnInit, ProviderError, ToggleAssetSelection (baseAsset ''ghost'' ''Ghost'')]) \<and>
   ''ghost'' \<in> set (selectedAssetIds
       (exec initial [NgOnInit, ProviderError, ToggleAssetSelection (baseAsset ''ghost'' ''Ghost'')])) \<and>
   ''ghost'' \<notin> set (map id_asset (modelPoolAssets
       (exec initial [NgOnInit, ProviderError, ToggleAssetSelection (baseAsset ''ghost'' ''Ghost'')])))"
  by (simp add: initial_def ngOnInit_def loadModelPool_def loadModelPool_error_def
        toggleAssetSelection_def isAssetSelected_def baseAsset_def buildDemoAssets_def
        selectionInCatalog_def)

text \<open>
  C10, amended. After either answer of the asset service the selection is the ids of
  the first three assets of the new catalog, so every selected id is an id of the
  catalog. A toggle of an asset whose id is in the loaded catalog keeps this. So it
  holds in every state reached from the initial state by events whose toggles are all
  of assets with an id in the catalog loaded at that moment; the other events are
  arbitrary, reloads among them.
\<close>

theorem selection_stays_in_catalog:
  "selectedAssetIds (loadModelPool_next s assets) = map id_asset (take 3 assets) \<and>
   selectionInCatalog (loadModelPool_next s assets) \<and>
   selectedAssetIds (loadModelPool_error s) = map id_asset (take 3 buildDemoAssets) \<and>
   selectionInCatalog (loadModelPool_error s) \<and>
   (selectionInCatalog s \<and> id_asset asset \<in> set (map id_asset (modelPoolAssets s)) \<longrightarrow>
      selectionInCatalog (toggleAssetSelection s asset)) \<and>
   (togglesInCatalog initial es \<longrightarrow> selectionInCatalog (exec initial es))"
proof -
  have "selectionInCatalog initial"
    by (simp add: selectionInCatalog_def initial_def)
  then have "selectionInCatalog (exec initial es)" if "togglesInCatalog initial es"
    using that by (rule exec_keeps_selectionInCatalog)
  moreover have "selectedAssetIds (loadModelPool_next s assets) = map id_asset (take 3 assets)"
    and "selectedAssetIds (loadModelPool_error s) = map id_asset (take 3 buildDemoAssets)"
    by (simp_all add: loadModelPool_next_def loadModelPool_error_def)
  ultimately show ?thesis
    using load_gives_selectionInCatalog toggle_keeps_selectionInCatalog [of s asset]
    by blast
qed

theorem selection_stays_in_catalog_witness:
  "togglesInCatalog initial
     [NgOnInit, ProviderError, ToggleAssetSelection (baseAsset ''demo-forge'' ''Forge-XL''),
      ToggleAssetSelection (baseAsset ''demo-iris'' ''Iris-V2''), RunRanking, Timeout] \<and>
   selectionInCatalog (exec initial
     [NgOnInit, ProviderError, ToggleAssetSelection (baseAsset ''demo-forge'' ''Forge-XL''),
      ToggleAssetSelection (baseAsset ''demo-iris'' ''Iris-V2''), RunRanking, Timeout]) \<and>
   selectedAssetIds (exec initial
     [NgOnInit, ProviderError, ToggleAssetSelection (baseAsset ''demo-forge'' ''Forge-XL''),
      ToggleAssetSelection (baseAsset ''demo-iris'' ''Iris-V2''), RunRanking, Timeout]) =
     [''demo-sentinel'', ''demo-atlas'', ''demo-forge'']"
proof -
  let ?es = "[NgOnInit, ProviderError, ToggleAssetSelection (baseAsset ''demo-forge'' ''Forge-XL''),
      ToggleAssetSelection (baseAsset ''demo-iris'' ''Iris-V2''), RunRanking, Timeout]"
  have adm: "togglesInCatalog initial ?es"
    by (simp add: initial_def ngOnInit_def loadModelPool_def loadModelPool_error_def
        toggleAssetSelection_def isAssetSelected_def baseAsset_def buildDemoAssets_def
        runRanking_def)
  have sel: "selectedAssetIds (exec initial ?es) = [''demo-sentinel'', ''demo-atlas'', ''demo-forge'']"
    by (simp add: initial_def ngOnInit_def loadModelPool_def loadModelPool_error_def
        toggleAssetSelection_def isAssetSelected_def baseAsset_def buildDemoAssets_def
        runRanking_def runRanking_timeout_def)
  from selection_stays_in_catalog [of initial "[]" "baseAsset ''demo-iris'' ''Iris-V2''" ?es] adm sel
  show ?thesis by blast
qed

section \<open>Properties of the ranking\<close>

subsection \<open>Lists built with an index, and the sort\<close>

lemma mapIndexed_nth_conv:
  "mapIndexed f xs = map (\<lambda>i. f (xs ! i) i) [0..<length xs]"
  by (rule nth_equalityI) (simp_all add: mapIndexed_def nth_enumerate_eq)

lemma length_mapIndexed [simp]: "length (mapIndexed f xs) = length xs"
  by (simp add: mapIndexed_def)

lemma length_insertRow [simp]: "length (insertRow x xs) = Suc (length xs)"
  by (induction xs) simp_all

lemma length_sortRows [simp]: "length (sortRows xs) = length xs"
  by (induction xs) (simp_all add: sortRows_def)

lemma rankOf_withRank [simp]: "rankOf (withRank v i) = Some (Suc i)"
  by (cases v) simp_all

lemma modelOf_withRank [simp]: "modelOf (withRank v i) = modelOf v"
  by (cases v) simp_all

lemma ranks_mapIndexed_withRank:
  "map rankOf (mapIndexed withRank xs) = map Some [1..<Suc (length xs)]"
proof -
  have "map rankOf (mapIndexed withRank xs) = map (\<lambda>i. Some (Suc i)) [0..<length xs]"
    by (simp add: mapIndexed_nth_conv)
  also have "\<dots> = map Some (map Suc [0..<length xs])"
    by simp
  also have "map Suc [0..<length xs] = [1..<Suc (length xs)]"
    by (simp only: map_Suc_upt One_nat_def)
  finally show ?thesis .
qed

lemma length_ranked [simp]: "length (ranked s) = length (selectedAssets s)"
  by (simp add: ranked_def rawRows_def)

lemma mset_insertRow: "mset (insertRow x xs) = add_mset x (mset xs)"
  by (induction xs) simp_all

lemma mset_sortRows: "mset (sortRows xs) = mset xs"
  by (induction xs) (simp_all add: sortRows_def mset_insertRow)

lemma models_mapIndexed_withRank:
  "map modelOf (mapIndexed withRank xs) = map modelOf xs"
  by (rule nth_equalityI) (simp_all add: mapIndexed_nth_conv)

lemma length_selected_distinct:
  assumes "distinct ids" and "distinct (map id_asset cat)"
    and "set ids \<subseteq> set (map id_asset cat)"
  shows "length (filter (\<lambda>asset. id_asset asset \<in> set ids) cat) = length ids"
proof -
  let ?sel = "filter (\<lambda>asset. id_asset asset \<in> set ids) cat"
  have d: "distinct (map id_asset ?sel)"
    using assms(2) by (simp add: distinct_map_filter)
  have "set (map id_asset ?sel) = set ids"
    using assms(3) by auto
  then have "card (set (map id_asset ?sel)) = card (set ids)"
    by (rule arg_cong)
  moreover have "card (set (map id_asset ?sel)) = length (map id_asset ?sel)"
    using d by (rule distinct_card)
  moreover have "card (set ids) = length ids"
    using assms(1) by (rule distinct_card)
  ultimately have "length (map id_asset ?sel) = length ids"
    by (simp only:)
  then show ?thesis by (simp only: length_map)
qed

subsection \<open>The raw row of an asset\<close>

lemma buildRankingRow_inherited:
  "id_asset asset \<in> set objectPrototypeMembers \<Longrightarrow>
   buildRankingRow asset index = Inherited (id_asset asset)"
  by (auto simp add: buildRankingRow_def getProperty_def scoreMap_def objectPrototypeMembers_def)

lemma buildRankingRow_proper:
  "id_asset asset \<notin> set objectPrototypeMembers \<Longrightarrow>
   \<exists>r. buildRankingRow asset index = Row r \<and> rank r = 0 \<and> top_opt r = None \<and>
       model r = name asset"
  by (simp add: buildRankingRow_def getProperty_def scoreMap_def Let_def)

lemma run_then_timeout:
  assumes "\<not> isRunning s" and "2 \<le> length (selectedAssetIds s)"
  shows "exec s [RunRanking, Timeout] =
           s \<lparr> rankingRows := ranked s, isRunning := False,
               statusMessage :=
                 ''Demo ranking generated. Replace with live benchmarking when backend is ready.'' \<rparr>"
  using assms
  by (simp add: runRanking_def runRanking_timeout_def ranked_def rawRows_def selectedAssets_def)

lemma models_rawRows:
  assumes "\<forall>asset \<in> set (selectedAssets s). id_asset asset \<notin> set objectPrototypeMembers"
  shows "map modelOf (rawRows s) = map (\<lambda>asset. Some (name asset)) (selectedAssets s)"
proof (rule nth_equalityI)
  show "length (map modelOf (rawRows s)) = length (map (\<lambda>asset. Some (name asset)) (selectedAssets s))"
    by (simp add: rawRows_def)
next
  fix i assume "i < length (map modelOf (rawRows s))"
  then have i: "i < length (selectedAssets s)" by (simp add: rawRows_def)
  then have "id_asset (selectedAssets s ! i) \<notin> set objectPrototypeMembers"
    using assms by simp
  then obtain r where "buildRankingRow (selectedAssets s ! i) i = Row r" "model r = name (selectedAssets s ! i)"
    using buildRankingRow_proper by blast
  then show "map modelOf (rawRows s) ! i = map (\<lambda>asset. Some (name asset)) (selectedAssets s) ! i"
    using i by (simp add: rawRows_def mapIndexed_nth_conv)
qed

lemma models_ranked:
  "mset (map modelOf (ranked s)) = mset (map modelOf (rawRows s))"
proof -
  have "mset (map modelOf (ranked s)) = image_mset modelOf (mset (sortRows (rawRows s)))"
    by (simp add: ranked_def models_mapIndexed_withRank)
  then show ?thesis by (simp add: mset_sortRows)
qed

text \<open>
  C3. For an asset with one of the four ids of \<^verbatim>\<open>scoreMap\<close> the raw row has the
  score, accuracy, latency and cost the table gives for the id, whatever the index; its
  \<^verbatim>\<open>model\<close> is the name of the asset passed in.
\<close>

theorem known_ids_use_table:
  "(id_asset asset = ''asset-user1-sentiment-api'' \<longrightarrow>
      buildRankingRow asset index =
        Row \<lparr> rank = 0, model = name asset, score = 0.86, accuracy = 0.92,
              latency = ''300ms'', cost = ''$0.012'', top_opt = None \<rparr>) \<and>
   (id_asset asset = ''asset-user1-fraud-api'' \<longrightarrow>
      buildRankingRow asset index =
        Row \<lparr> rank = 0, model = name asset, score = 0.88, accuracy = 0.94,
              latency = ''260ms'', cost = ''$0.014'', top_opt = None \<rparr>) \<and>
   (id_asset asset = ''asset-user1-segmentation-model'' \<longrightarrow>
      buildRankingRow asset index =
        Row \<lparr> rank = 0, model = name asset, score = 0.82, accuracy = 0.9,
              latency = ''420ms'', cost = ''$0.016'', top_opt = None \<rparr>) \<and>
   (id_asset asset = ''asset-user1-credit-model'' \<longrightarrow>
      buildRankingRow asset index =
        Row \<lparr> rank = 0, model = name asset, score = 0.84, accuracy = 0.91,
              latency = ''310ms'', cost = ''$0.011'', top_opt = None \<rparr>)"
  by (simp add: buildRankingRow_def getProperty_def scoreMap_def)

theorem known_ids_use_table_witness:
  "buildRankingRow (baseAsset ''asset-user1-segmentation-model'' ''Customer segments'') 7 =
     Row \<lparr> rank = 0, model = ''Customer segments'', score = 0.82, accuracy = 0.9,
           latency = ''420ms'', cost = ''$0.016'', top_opt = None \<rparr>"
  using known_ids_use_table
          [of "baseAsset ''asset-user1-segmentation-model'' ''Customer segments''" 7]
  by (simp add: baseAsset_def)

text \<open>
  For an asset whose id is neither one of the four ids of the table nor the name of a
  member of \<^verbatim>\<open>Object.prototype\<close>, the raw row is the fallback row: the score is
  the element \<open>index mod 5\<close> of the five fallback scores, the accuracy the least of
  0.95 and the score plus 0.06, the latency \<open>280 + index * 40\<close> in decimal followed by
  "ms", and the cost "$0.0" followed by \<open>12 + index\<close> in decimal.
\<close>

lemma fallback_row:
  assumes "id_asset asset \<notin> set (map fst (scoreMap asset))"
    and "id_asset asset \<notin> set objectPrototypeMembers"
  shows "buildRankingRow asset index =
           Row \<lparr> rank = 0, model = name asset,
                 score = [0.87, 0.85, 0.82, 0.79, 0.76] ! (index mod 5),
                 accuracy = min 0.95 ([0.87, 0.85, 0.82, 0.79, 0.76] ! (index mod 5) + 0.06),
                 latency = showNat (280 + index * 40) @ ''ms'',
                 cost = ''$0.0'' @ showNat (12 + index),
                 top_opt = None \<rparr>"
  using assms
  by (simp add: buildRankingRow_def getProperty_def scoreMap_def fallbackScores_def Let_def)

text \<open>
  C4. The fallback row is not what every id outside the table gets. An asset with the
  id "constructor" is not in the table, and at index 0 \<^verbatim>\<open>buildRankingRow\<close> returns
  the inherited member \<^verbatim>\<open>Object.prototype.constructor\<close> for it, not a row with the
  score 0.87: the value has no score. Selected next to the asset of the fraud API, it
  is sorted as equal to every row and the leaderboard shows it first, as an entry with
  a rank and \<^verbatim>\<open>top\<close> only, before the row with the score 0.88.
\<close>

theorem inherited_member_instead_of_fallback:
  "id_asset (baseAsset ''constructor'' ''Any'') \<notin>
     set (map fst (scoreMap (baseAsset ''constructor'' ''Any''))) \<and>
   buildRankingRow (baseAsset ''constructor'' ''Any'') 0 = Inherited ''constructor'' \<and>
   scoreOf (buildRankingRow (baseAsset ''constructor'' ''Any'') 0) = None \<and>
   rankingRows
     (exec (loadModelPool_next initial
              [baseAsset ''constructor'' ''Any'', baseAsset ''asset-user1-fraud-api'' ''Fraud''])
        [RunRanking, Timeout]) =
     [ RankTop 1 True,
       Row \<lparr> rank = 2, model = ''Fraud'', score = 0.88, accuracy = 0.94,
             latency = ''260ms'', cost = ''$0.014'', top_opt = Some False \<rparr> ]"
  by (simp add: loadModelPool_next_def initial_def baseAsset_def runRanking_def
        runRanking_timeout_def ranked_def rawRows_def selectedAssets_def mapIndexed_def
        buildRankingRow_def getProperty_def scoreMap_def objectPrototypeMembers_def
        sortRows_def sortCompare_def comparefn_def)

subsection \<open>The leaderboard of a run\<close>

text \<open>
  C1. When no run is in progress, at least two ids are selected and every selected id
  is an id of the catalog, \<^verbatim>\<open>runRanking\<close> followed by its timer leaves a leaderboard
  with as many entries as the catalog has selected assets, whose ranks are 1, 2, ..., n
  in list order. When the selected ids and the ids of the catalog are without
  repetition this is the number of selected ids. When no selected asset is named like a
  member of \<^verbatim>\<open>Object.prototype\<close>, the \<^verbatim>\<open>model\<close> fields of the entries are the
  names of the selected assets, each as often as it occurs among them.
\<close>

theorem ranking_one_row_per_selected_asset:
  assumes "\<not> isRunning s" and "2 \<le> length (selectedAssetIds s)" and "selectionInCatalog s"
  shows "length (rankingRows (exec s [RunRanking, Timeout])) = length (selectedAssets s) \<and>
         map rankOf (rankingRows (exec s [RunRanking, Timeout])) =
           map Some [1..<Suc (length (selectedAssets s))] \<and>
         (distinct (selectedAssetIds s) \<and> distinct (map id_asset (modelPoolAssets s)) \<longrightarrow>
            length (rankingRows (exec s [RunRanking, Timeout])) = length (selectedAssetIds s)) \<and>
         ((\<forall>asset \<in> set (selectedAssets s). id_asset asset \<notin> set objectPrototypeMembers) \<longrightarrow>
            mset (map modelOf (rankingRows (exec s [RunRanking, Timeout]))) =
              mset (map (\<lambda>asset. Some (name asset)) (selectedAssets s)))"
proof -
  have rows: "rankingRows (exec s [RunRanking, Timeout]) = ranked s"
    using run_then_timeout [OF assms(1,2)] by simp
  have "length (ranked s) = length (selectedAssets s)"
    by simp
  moreover have "map rankOf (ranked s) = map Some [1..<Suc (length (selectedAssets s))]"
    by (simp add: ranked_def ranks_mapIndexed_withRank rawRows_def)
  moreover have "length (ranked s) = length (selectedAssetIds s)"
    if "distinct (selectedAssetIds s)" and "distinct (map id_asset (modelPoolAssets s))"
    using that assms(3) length_selected_distinct [of "selectedAssetIds s" "modelPoolAssets s"]
    by (simp add: selectionInCatalog_def selectedAssets_def)
  moreover have "mset (map modelOf (ranked s)) =
      mset (map (\<lambda>asset. Some (name asset)) (selectedAssets s))"
    if "\<forall>asset \<in> set (selectedAssets s). id_asset asset \<notin> set objectPrototypeMembers"
    using models_rawRows [OF that] by (simp only: models_ranked)
  ultimately show ?thesis
    unfolding rows by blast
qed

theorem ranking_one_row_per_selected_asset_witness:
  "\<not> isRunning (loadModelPool_error initial) \<and>
   length (selectedAssetIds (loadModelPool_error initial)) = 3 \<and>
   selectionInCatalog (loadModelPool_error initial) \<and>
   length (rankingRows (exec (loadModelPool_error initial) [RunRanking, Timeout])) = 3 \<and>
   map rankOf (rankingRows (exec (loadModelPool_error initial) [RunRanking, Timeout])) =
     [Some 1, Some 2, Some 3]"
proof -
  have sel: "selectedAssets (loadModelPool_error initial) = take 3 buildDemoAssets"
    by (simp add: selectedAssets_def loadModelPool_error_def buildDemoAssets_def baseAsset_def)
  have pre: "\<not> isRunning (loadModelPool_error initial)"
    "2 \<le> length (selectedAssetIds (loadModelPool_error initial))"
    "selectionInCatalog (loadModelPool_error initial)"
    by (simp_all add: loadModelPool_error_def initial_def buildDemoAssets_def baseAsset_def
          selectionInCatalog_def)
  have n: "length (selectedAssets (loadModelPool_error initial)) = 3"
    by (simp add: sel buildDemoAssets_def)
  have ids: "length (selectedAssetIds (loadModelPool_error initial)) = 3"
    by (simp add: loadModelPool_error_def buildDemoAssets_def)
  have upt: "map Some [1..<Suc 3] = [Some 1, Some 2, Some (3::nat)]"
    by (simp add: upt_rec)
  from ranking_one_row_per_selected_asset [OF pre]
  have "length (rankingRows (exec (loadModelPool_error initial) [RunRanking, Timeout])) = 3"
    and "map rankOf (rankingRows (exec (loadModelPool_error initial) [RunRanking, Timeout])) =
      [Some 1, Some 2, Some 3]"
    by (simp_all only: n upt)
  with pre(1,3) ids show ?thesis
    by blast
qed

lemma insertRow_Row:
  "insertRow (Row r) (map Row rs) = map Row (insort_key (\<lambda>r. - score r) r rs)"
  by (induction rs) (simp_all add: sortCompare_def comparefn_def)

lemma sortRows_Row:
  "sortRows (map Row rs) = map Row (sort_key (\<lambda>r. - score r) rs)"
  by (induction rs) (simp_all add: sortRows_def insertRow_Row)

lemma properRows_map_Row [simp]: "properRows (map Row rs) = rs"
  by (induction rs) simp_all

lemma all_proper_conv:
  "(\<And>v. v \<in> set vs \<Longrightarrow> \<exists>r. v = Row r) \<Longrightarrow> vs = map Row (properRows vs)"
proof (induction vs)
  case Nil
  show ?case by simp
next
  case (Cons v vs)
  from Cons.prems obtain r where "v = Row r" by auto
  moreover have "vs = map Row (properRows vs)"
    using Cons by simp
  ultimately show ?case by simp
qed

lemma rawRows_proper:
  assumes "\<forall>asset \<in> set (selectedAssets s). id_asset asset \<notin> set objectPrototypeMembers"
  shows "rawRows s = map Row (properRows (rawRows s))"
    and "\<forall>r \<in> set (properRows (rawRows s)). unranked r = r"
proof -
  have each: "\<exists>r. v = Row r \<and> unranked r = r" if "v \<in> set (rawRows s)" for v
  proof -
    from that obtain i where i: "i < length (selectedAssets s)"
      and v: "v = buildRankingRow (selectedAssets s ! i) i"
      by (auto simp add: rawRows_def mapIndexed_nth_conv)
    from i assms have "id_asset (selectedAssets s ! i) \<notin> set objectPrototypeMembers"
      by simp
    from buildRankingRow_proper [OF this, of i] v show ?thesis
      by (auto simp add: unranked_def)
  qed
  then show eq: "rawRows s = map Row (properRows (rawRows s))"
    by (intro all_proper_conv) blast
  show "\<forall>r \<in> set (properRows (rawRows s)). unranked r = r"
  proof
    fix r assume "r \<in> set (properRows (rawRows s))"
    then have "Row r \<in> set (map Row (properRows (rawRows s)))" by simp
    then have "Row r \<in> set (rawRows s)" using eq by simp
    from each [OF this] show "unranked r = r" by simp
  qed
qed

lemma withRank_rows:
  "mapIndexed withRank (map Row rs) =
     map Row (map (\<lambda>i. (rs ! i) \<lparr> rank := Suc i, top_opt := Some (i = 0) \<rparr>) [0..<length rs])"
  by (rule nth_equalityI) (simp_all add: mapIndexed_nth_conv)

lemma top_row_unique:
  assumes "rs \<noteq> []"
  defines "F \<equiv> map (\<lambda>i. (rs ! i) \<lparr> rank := Suc i, top_opt := Some (i = 0) \<rparr>) [0..<length rs]"
  shows "filter (\<lambda>r. top_opt r = Some True) F = [hd F]" and "rank (hd F) = 1"
proof -
  from assms(1) have n: "0 < length rs" by simp
  have split: "[0..<length rs] = 0 # [1..<length rs]"
    using n by (simp add: upt_conv_Cons)
  have "filter (\<lambda>r. top_opt r = Some True)
          (map (\<lambda>i. (rs ! i) \<lparr> rank := Suc i, top_opt := Some (i = 0) \<rparr>) [1..<length rs]) = []"
    by (simp add: filter_empty_conv)
  then show "filter (\<lambda>r. top_opt r = Some True) F = [hd F]"
    unfolding F_def split by simp
  show "rank (hd F) = 1"
    unfolding F_def split by simp
qed

lemma unranked_final:
  assumes "\<forall>r \<in> set rs. unranked r = r"
  shows "map unranked (map (\<lambda>i. (rs ! i) \<lparr> rank := Suc i, top_opt := Some (i = 0) \<rparr>) [0..<length rs]) = rs"
  using assms by (intro nth_equalityI) (simp_all add: unranked_def)

lemma scores_final:
  "map score (map (\<lambda>i. (rs ! i) \<lparr> rank := Suc i, top_opt := Some (i = 0) \<rparr>) [0..<length rs]) = map score rs"
  by (intro nth_equalityI) simp_all

lemma sorted_desc:
  "sorted_wrt (\<lambda>a b. score b \<le> score a) (sort_key (\<lambda>r. - score r) rs)"
proof -
  have "sorted (map (\<lambda>r. - score r) (sort_key (\<lambda>r. - score r) rs))"
    by (rule sorted_sort_key)
  then show ?thesis by (simp add: sorted_map)
qed

lemma stable_desc:
  "filter (\<lambda>r. score r = k) (sort_key (\<lambda>r. - score r) rs) = filter (\<lambda>r. score r = k) rs"
  using sort_key_stable [of "\<lambda>r. - score r" "- k" rs] by simp

lemma ranked_proper:
  assumes "\<forall>asset \<in> set (selectedAssets s). id_asset asset \<notin> set objectPrototypeMembers"
  shows "ranked s =
           map Row (map (\<lambda>i. (sort_key (\<lambda>r. - score r) (properRows (rawRows s)) ! i)
                               \<lparr> rank := Suc i, top_opt := Some (i = 0) \<rparr>)
                        [0..<length (selectedAssets s)])"
proof -
  let ?raw = "properRows (rawRows s)"
  have raw: "rawRows s = map Row ?raw"
    using assms by (rule rawRows_proper(1))
  have len: "length ?raw = length (selectedAssets s)"
    using arg_cong [OF raw, of length] by (simp add: rawRows_def)
  have "ranked s = mapIndexed withRank (sortRows (map Row ?raw))"
    using raw by (simp add: ranked_def)
  also have "\<dots> = mapIndexed withRank (map Row (sort_key (\<lambda>r. - score r) ?raw))"
    by (simp only: sortRows_Row)
  finally show ?thesis
    by (simp only: withRank_rows length_sort len)
qed

text \<open>
  A run can leave an empty leaderboard, in which no row has \<^verbatim>\<open>top\<close> set: the
  asset service answers with an empty catalog, two assets are toggled in (the toggle
  accepts them), and the run passes the guard on the number of selected ids.
\<close>

theorem empty_leaderboard_counterexample:
  "selectedAssetIds
     (exec initial [NgOnInit, ProviderNext [], ToggleAssetSelection (baseAsset ''a'' ''A''),
                    ToggleAssetSelection (baseAsset ''b'' ''B'')]) = [''a'', ''b''] \<and>
   statusMessage
     (exec initial [NgOnInit, ProviderNext [], ToggleAssetSelection (baseAsset ''a'' ''A''),
                    ToggleAssetSelection (baseAsset ''b'' ''B''), RunRanking]) =
     ''Running benchmark in demo mode...'' \<and>
   rankingRows
     (exec initial [NgOnInit, ProviderNext [], ToggleAssetSelection (baseAsset ''a'' ''A''),
                    ToggleAssetSelection (baseAsset ''b'' ''B''), RunRanking, Timeout]) = [] \<and>
   filter (\<lambda>v. topOf v = Some True)
     (rankingRows
        (exec initial [NgOnInit, ProviderNext [], ToggleAssetSelection (baseAsset ''a'' ''A''),
                       ToggleAssetSelection (baseAsset ''b'' ''B''), RunRanking, Timeout])) = []"
  by (simp add: initial_def ngOnInit_def loadModelPool_def loadModelPool_next_def
        toggleAssetSelection_def isAssetSelected_def baseAsset_def runRanking_def
        runRanking_timeout_def ranked_def rawRows_def selectedAssets_def mapIndexed_def
        sortRows_def)

text \<open>
  C2, amended. When the timer of a run fires in a state in which the catalog has at
  least one selected asset and every selected asset has a row of the table or the
  fallback row (its id is not the name of a member of \<^verbatim>\<open>Object.prototype\<close>), then
  every entry of the new leaderboard is a row; the scores do not increase along the
  list; exactly one row has \<^verbatim>\<open>top\<close> true, the first, and its rank is 1, the ranks
  along the list being 1, 2, ..., n; and for
  every score, the rows with this score stand in the order their raw rows had before
  the sort, and differ from them in \<^verbatim>\<open>rank\<close> and \<^verbatim>\<open>top\<close> only.
\<close>

theorem ranking_sorted_with_one_top_row:
  assumes "selectedAssets s \<noteq> []"
    and "\<forall>asset \<in> set (selectedAssets s). id_asset asset \<notin> set objectPrototypeMembers"
  shows "rankingRows (runRanking_timeout s) =
           map Row (properRows (rankingRows (runRanking_timeout s))) \<and>
         sorted_wrt (\<lambda>a b. score b \<le> score a) (properRows (rankingRows (runRanking_timeout s))) \<and>
         filter (\<lambda>r. top_opt r = Some True) (properRows (rankingRows (runRanking_timeout s))) =
           [hd (properRows (rankingRows (runRanking_timeout s)))] \<and>
         rank (hd (properRows (rankingRows (runRanking_timeout s)))) = 1 \<and>
         map rank (properRows (rankingRows (runRanking_timeout s))) =
           [1..<Suc (length (selectedAssets s))] \<and>
         (\<forall>k. map unranked
                (filter (\<lambda>r. score r = k) (properRows (rankingRows (runRanking_timeout s)))) =
              filter (\<lambda>r. score r = k) (properRows (rawRows s)))"
proof -
  let ?raw = "properRows (rawRows s)"
  let ?sorted = "sort_key (\<lambda>r. - score r) ?raw"
  let ?F = "map (\<lambda>i. (?sorted ! i) \<lparr> rank := Suc i, top_opt := Some (i = 0) \<rparr>) [0..<length ?sorted]"
  have raw: "rawRows s = map Row ?raw"
    using assms(2) by (rule rawRows_proper(1))
  have len: "length ?raw = length (selectedAssets s)"
    using arg_cong [OF raw, of length] by (simp add: rawRows_def)
  have rows: "rankingRows (runRanking_timeout s) = map Row ?F"
    using ranked_proper [OF assms(2)] by (simp add: runRanking_timeout_def len)
  have proper: "properRows (rankingRows (runRanking_timeout s)) = ?F"
    by (simp only: rows properRows_map_Row)
  have nonempty: "?sorted \<noteq> []"
    using assms(1) len by (metis length_0_conv length_sort)
  have c1: "rankingRows (runRanking_timeout s) =
      map Row (properRows (rankingRows (runRanking_timeout s)))"
    by (simp only: proper) (rule rows)
  have c2: "sorted_wrt (\<lambda>a b. score b \<le> score a)
      (properRows (rankingRows (runRanking_timeout s)))"
  proof -
    have "sorted_wrt (\<lambda>x y. y \<le> x) (map score ?sorted)"
      using sorted_desc [of ?raw] by (simp add: sorted_wrt_map)
    then have "sorted_wrt (\<lambda>x y. y \<le> x) (map score ?F)"
      by (simp only: scores_final)
    then show ?thesis by (simp only: proper sorted_wrt_map)
  qed
  have c3: "filter (\<lambda>r. top_opt r = Some True) (properRows (rankingRows (runRanking_timeout s))) =
      [hd (properRows (rankingRows (runRanking_timeout s)))]"
    unfolding proper using nonempty by (rule top_row_unique(1))
  have c4: "rank (hd (properRows (rankingRows (runRanking_timeout s)))) = 1"
    unfolding proper using nonempty by (rule top_row_unique(2))
  have c5: "map unranked
       (filter (\<lambda>r. score r = k) (properRows (rankingRows (runRanking_timeout s)))) =
     filter (\<lambda>r. score r = k) ?raw" for k
  proof -
    have "\<forall>r \<in> set ?sorted. unranked r = r"
      using rawRows_proper(2) [OF assms(2)] by simp
    then have u: "map unranked ?F = ?sorted"
      by (rule unranked_final)
    have "map unranked (filter (\<lambda>r. score r = k) ?F) =
            filter (\<lambda>r. score r = k) (map unranked ?F)"
      by (simp only: filter_map) (simp add: comp_def unranked_def)
    then show ?thesis
      by (simp only: proper u stable_desc)
  qed
  have c6: "map rank (properRows (rankingRows (runRanking_timeout s))) =
      [1..<Suc (length (selectedAssets s))]"
  proof -
    have "map rankOf (rankingRows (runRanking_timeout s)) =
        map Some [1..<Suc (length (selectedAssets s))]"
      by (simp add: runRanking_timeout_def ranked_def ranks_mapIndexed_withRank rawRows_def)
    moreover have "map rankOf (map Row rs) = map Some (map rank rs)" for rs
      by simp
    ultimately have "map Some (map rank (properRows (rankingRows (runRanking_timeout s)))) =
        map Some [1..<Suc (length (selectedAssets s))]"
      using c1 by metis
    then show ?thesis
      by (simp only: inj_map_eq_map [OF inj_Some])
  qed
  from c1 c2 c3 c4 c5 c6 show ?thesis
    by blast
qed

theorem ranking_sorted_with_one_top_row_witness:
  "selectedAssets
     (loadModelPool_next initial
        [baseAsset ''asset-user1-credit-model'' ''Credit'', baseAsset ''live-42'' ''Churn'',
         baseAsset ''asset-user1-fraud-api'' ''Fraud'']) \<noteq> [] \<and>
   map score (properRows (rankingRows (runRanking_timeout
     (loadModelPool_next initial
        [baseAsset ''asset-user1-credit-model'' ''Credit'', baseAsset ''live-42'' ''Churn'',
         baseAsset ''asset-user1-fraud-api'' ''Fraud''])))) = [0.88, 0.85, 0.84] \<and>
   sorted_wrt (\<lambda>a b. score b \<le> score a) (properRows (rankingRows (runRanking_timeout
     (loadModelPool_next initial
        [baseAsset ''asset-user1-credit-model'' ''Credit'', baseAsset ''live-42'' ''Churn'',
         baseAsset ''asset-user1-fraud-api'' ''Fraud''])))) \<and>
   rank (hd (properRows (rankingRows (runRanking_timeout
     (loadModelPool_next initial
        [baseAsset ''asset-user1-credit-model'' ''Credit'', baseAsset ''live-42'' ''Churn'',
         baseAsset ''asset-user1-fraud-api'' ''Fraud'']))))) = 1"
proof -
  let ?s = "loadModelPool_next initial
        [baseAsset ''asset-user1-credit-model'' ''Credit'', baseAsset ''live-42'' ''Churn'',
         baseAsset ''asset-user1-fraud-api'' ''Fraud'']"
  have sel: "selectedAssets ?s =
        [baseAsset ''asset-user1-credit-model'' ''Credit'', baseAsset ''live-42'' ''Churn'',
         baseAsset ''asset-user1-fraud-api'' ''Fraud'']"
    by (simp add: selectedAssets_def loadModelPool_next_def baseAsset_def)
  have pre: "selectedAssets ?s \<noteq> []"
    "\<forall>asset \<in> set (selectedAssets ?s). id_asset asset \<notin> set objectPrototypeMembers"
    by (simp_all add: sel) (simp_all add: baseAsset_def objectPrototypeMembers_def)
  have scores: "map score (properRows (rankingRows (runRanking_timeout ?s))) = [0.88, 0.85, 0.84]"
    by (simp only: runRanking_timeout_def ranked_def rawRows_def sel)
       (simp add: mapIndexed_def buildRankingRow_def getProperty_def scoreMap_def
          fallbackScores_def baseAsset_def objectPrototypeMembers_def sortRows_def
          sortCompare_def comparefn_def)
  from ranking_sorted_with_one_top_row [OF pre] pre(1) scores show ?thesis
    by blast
qed

lemma two_selected_ids:
  assumes "a \<in> set (selectedAssets s)" and "b \<in> set (selectedAssets s)"
    and "id_asset a \<noteq> id_asset b"
  shows "2 \<le> length (selectedAssetIds s)"
proof -
  from assms(1,2) have "id_asset a \<in> set (selectedAssetIds s)" "id_asset b \<in> set (selectedAssetIds s)"
    by (simp_all add: selectedAssets_def)
  with assms(3) show ?thesis
    by (cases "selectedAssetIds s" rule: list.exhaust; cases "tl (selectedAssetIds s)") auto
qed

text \<open>
  The id "asset-user1-sentinent-api" is not a key of \<^verbatim>\<open>scoreMap\<close> (the key is
  spelt "asset-user1-sentiment-api"). An asset with this id gets the fallback row of
  its index: next to the asset of the fraud API its score is 0.85 when it stands second
  in the catalog and 0.87 when it stands first, and 0.86 in neither case.
\<close>

theorem misspelt_sentiment_id_counterexample:
  "map id_asset (selectedAssets (loadModelPool_next initial
        [baseAsset ''asset-user1-fraud-api'' ''Fraud'',
         baseAsset ''asset-user1-sentinent-api'' ''Sentiment''])) =
     [''asset-user1-fraud-api'', ''asset-user1-sentinent-api''] \<and>
   map scoreOf (rankingRows
     (exec (loadModelPool_next initial
              [baseAsset ''asset-user1-fraud-api'' ''Fraud'',
               baseAsset ''asset-user1-sentinent-api'' ''Sentiment''])
        [RunRanking, Timeout])) = [Some 0.88, Some 0.85] \<and>
   map scoreOf (rankingRows
     (exec (loadModelPool_next initial
              [baseAsset ''asset-user1-sentinent-api'' ''Sentiment'',
               baseAsset ''asset-user1-fraud-api'' ''Fraud''])
        [RunRanking, Timeout])) = [Some 0.88, Some 0.87] \<and>
   Some 0.86 \<notin> set (map scoreOf (rankingRows
     (exec (loadModelPool_next initial
              [baseAsset ''asset-user1-fraud-api'' ''Fraud'',
               baseAsset ''asset-user1-sentinent-api'' ''Sentiment''])
        [RunRanking, Timeout])))"
  by (simp add: loadModelPool_next_def initial_def baseAsset_def runRanking_def
        runRanking_timeout_def ranked_def rawRows_def selectedAssets_def mapIndexed_def
        buildRankingRow_def getProperty_def scoreMap_def fallbackScores_def
        objectPrototypeMembers_def sortRows_def sortCompare_def comparefn_def)

text \<open>
  C5, amended. When a run is started with no run in progress and the selected assets
  of the catalog are two, with the ids "asset-user1-fraud-api" and
  "asset-user1-sentiment-api" in either order, the leaderboard after the timer has the
  row of the fraud API first, with score 0.88, rank 1 and \<^verbatim>\<open>top\<close> true, and the row of
  the sentiment API second, with score 0.86, rank 2 and \<^verbatim>\<open>top\<close> false.
\<close>

theorem fraud_ranked_before_sentiment:
  assumes "\<not> isRunning s"
    and "selectedAssets s = [f, t] \<or> selectedAssets s = [t, f]"
    and "id_asset f = ''asset-user1-fraud-api''"
    and "id_asset t = ''asset-user1-sentiment-api''"
  shows "rankingRows (exec s [RunRanking, Timeout]) =
           [ Row \<lparr> rank = 1, model = name f, score = 0.88, accuracy = 0.94,
                   latency = ''260ms'', cost = ''$0.014'', top_opt = Some True \<rparr>,
             Row \<lparr> rank = 2, model = name t, score = 0.86, accuracy = 0.92,
                   latency = ''300ms'', cost = ''$0.012'', top_opt = Some False \<rparr> ]"
proof -
  have "f \<in> set (selectedAssets s)" "t \<in> set (selectedAssets s)"
    using assms(2) by auto
  moreover have "id_asset f \<noteq> id_asset t"
    using assms(3,4) by simp
  ultimately have "2 \<le> length (selectedAssetIds s)"
    by (rule two_selected_ids)
  with assms(1) have rows: "rankingRows (exec s [RunRanking, Timeout]) = ranked s"
    using run_then_timeout [of s] by simp
  have bf: "buildRankingRow f i =
      Row \<lparr> rank = 0, model = name f, score = 0.88, accuracy = 0.94,
            latency = ''260ms'', cost = ''$0.014'', top_opt = None \<rparr>" for i
    using assms(3) by (simp add: buildRankingRow_def getProperty_def scoreMap_def)
  have bt: "buildRankingRow t i =
      Row \<lparr> rank = 0, model = name t, score = 0.86, accuracy = 0.92,
            latency = ''300ms'', cost = ''$0.012'', top_opt = None \<rparr>" for i
    using assms(4) by (simp add: buildRankingRow_def getProperty_def scoreMap_def)
  from assms(2) show ?thesis
  proof
    assume "selectedAssets s = [f, t]"
    then show ?thesis
      unfolding rows
      by (simp add: ranked_def rawRows_def mapIndexed_def sortRows_def bf bt
            sortCompare_def comparefn_def)
  next
    assume "selectedAssets s = [t, f]"
    then show ?thesis
      unfolding rows
      by (simp add: ranked_def rawRows_def mapIndexed_def sortRows_def bf bt
            sortCompare_def comparefn_def)
  qed
qed

theorem fraud_ranked_before_sentiment_witness:
  "rankingRows
     (exec (loadModelPool_next initial
              [baseAsset ''asset-user1-sentiment-api'' ''Sentiment'',
               baseAsset ''asset-user1-fraud-api'' ''Fraud''])
        [RunRanking, Timeout]) =
     [ Row \<lparr> rank = 1, model = ''Fraud'', score = 0.88, accuracy = 0.94,
             latency = ''260ms'', cost = ''$0.014'', top_opt = Some True \<rparr>,
       Row \<lparr> rank = 2, model = ''Sentiment'', score = 0.86, accuracy = 0.92,
             latency = ''300ms'', cost = ''$0.012'', top_opt = Some False \<rparr> ]"
  using fraud_ranked_before_sentiment
          [of "loadModelPool_next initial
                 [baseAsset ''asset-user1-sentiment-api'' ''Sentiment'',
                  baseAsset ''asset-user1-fraud-api'' ''Fraud'']"
              "baseAsset ''asset-user1-fraud-api'' ''Fraud''"
              "baseAsset ''asset-user1-sentiment-api'' ''Sentiment''"]
  by (simp add: selectedAssets_def loadModelPool_next_def baseAsset_def initial_def)

end
